theory Spec2Isabelle
  imports Complex_Main "HOL-Library.Sublist"
begin

section \<open>Text, exceptions and external calls\<close>

text \<open>
  The program is one Streamlit script, \<^verbatim>\<open>text_summarizer_app.py\<close>. A Python \<^verbatim>\<open>str\<close> is a
  sequence of Unicode code points, modelled as a list of naturals; \<open>ascii\<close> turns a literal
  of the source into such a list.
\<close>

type_synonym str = "nat list"

definition ascii :: "string \<Rightarrow> str" where
  "ascii s = map of_char s"

text \<open>
  Exceptions are values. \<open>LibraryError m\<close> stands for any \<^verbatim>\<open>Exception\<close> raised inside a
  third-party library, \<open>m\<close> being what \<^verbatim>\<open>str(e)\<close> gives; the other three are the ones the
  script's own expressions can raise. \<open>exn_str\<close> is \<^verbatim>\<open>str(e)\<close>.
\<close>

datatype exn = ZeroDivisionError | IndexError | KeyError str | LibraryError str

fun exn_str :: "exn \<Rightarrow> str" where
  "exn_str ZeroDivisionError = ascii ''division by zero''"
| "exn_str IndexError = ascii ''list index out of range''"
| "exn_str (KeyError k) = [39] @ k @ [39]"
| "exn_str (LibraryError m) = m"

text \<open>
  A call into a library or over the network reads and changes a world \<open>'w\<close> that the script
  does not control (model caches, random generators, the translation service), and either
  raises or returns.
\<close>

type_synonym ('a, 'w) ext = "'w \<Rightarrow> (exn + 'a) \<times> 'w"

subsection \<open>The built-in string methods the script uses\<close>

text \<open>
  \<^verbatim>\<open>str.strip()\<close> and \<^verbatim>\<open>str.split()\<close> without arguments both work on the characters for which
  \<^verbatim>\<open>str.isspace\<close> holds: the former removes them from both ends, the latter skips a run of
  them and then collects the characters up to the next one, until the string ends.
\<close>

definition isspace :: "nat \<Rightarrow> bool" where
  "isspace c \<longleftrightarrow>
     (9 \<le> c \<and> c \<le> 13) \<or> (28 \<le> c \<and> c \<le> 32) \<or> c = 133 \<or> c = 160 \<or>
     c = 5760 \<or> (8192 \<le> c \<and> c \<le> 8202) \<or> c = 8232 \<or> c = 8233 \<or>
     c = 8239 \<or> c = 8287 \<or> c = 12288"

definition str_strip :: "str \<Rightarrow> str" where
  "str_strip s = rev (dropWhile isspace (rev (dropWhile isspace s)))"

function str_split :: "str \<Rightarrow> str list" where
  "str_split [] = []"
| "str_split (c # cs) =
     (if isspace c then str_split cs
      else (c # takeWhile (\<lambda>x. \<not> isspace x) cs)
             # str_split (dropWhile (\<lambda>x. \<not> isspace x) cs))"
  by pat_completeness auto
termination
  by (relation "measure length") (auto simp: le_imp_less_Suc length_dropWhile_le)

text \<open>\<^verbatim>\<open>sep.join(xs)\<close>.\<close>

fun str_join :: "str \<Rightarrow> str list \<Rightarrow> str" where
  "str_join sep [] = []"
| "str_join sep [x] = x"
| "str_join sep (x # y # ys) = x @ sep @ str_join sep (y # ys)"

text \<open>
  \<^verbatim>\<open>xs[i]\<close> on a list and \<^verbatim>\<open>d[k]\<close> on a dictionary (an association list here) raise when the
  index or the key is missing.
\<close>

definition list_getitem :: "'a list \<Rightarrow> nat \<Rightarrow> exn + 'a" where
  "list_getitem xs i = (if i < length xs then Inr (xs ! i) else Inl IndexError)"

definition dict_getitem :: "(str \<times> 'v) list \<Rightarrow> str \<Rightarrow> exn + 'v" where
  "dict_getitem d k = (case map_of d k of None \<Rightarrow> Inl (KeyError k) | Some v \<Rightarrow> Inr v)"

text \<open>
  A list comprehension \<^verbatim>\<open>[f(x) for x in xs]\<close> whose body may raise: the first exception ends
  it.
\<close>

fun comprehension :: "('a \<Rightarrow> exn + 'b) \<Rightarrow> 'a list \<Rightarrow> exn + 'b list" where
  "comprehension f [] = Inr []"
| "comprehension f (x # xs) =
     (case f x of
        Inl e \<Rightarrow> Inl e
      | Inr y \<Rightarrow> (case comprehension f xs of Inl e \<Rightarrow> Inl e | Inr ys \<Rightarrow> Inr (y # ys)))"

section \<open>The metrics calculator and the translation adapter\<close>

text \<open>
  The libraries the two functions delegate to. \<open>TextBlob_sentences t\<close> is
  \<^verbatim>\<open>TextBlob(t).sentences\<close>, \<open>GoogleTranslator_translate target t\<close> is
  \<^verbatim>\<open>GoogleTranslator(source='auto', target=target).translate(t)\<close>. Readability scores are
  Python floats; they are carried as rationals and never computed with here.
\<close>

record 'w services =
  TextBlob_sentences :: "str \<Rightarrow> (str list, 'w) ext"
  flesch_reading_ease :: "str \<Rightarrow> (rat, 'w) ext"
  smog_index :: "str \<Rightarrow> (rat, 'w) ext"
  detect :: "str \<Rightarrow> (str, 'w) ext"
  GoogleTranslator_translate :: "str \<Rightarrow> str \<Rightarrow> (str, 'w) ext"

record metrics =
  word_count :: nat
  sentence_count :: nat
  flesch_score :: rat
  smog_score :: rat
  language :: str

text \<open>
  \<^verbatim>\<open>get_text_metrics\<close>: the dictionary display evaluates its five values in order, so the
  library calls follow each other in the world and the first one that raises ends the call.
\<close>

definition get_text_metrics :: "'w services \<Rightarrow> str \<Rightarrow> (metrics, 'w) ext" where
  "get_text_metrics E text w =
     (let wc = length (str_split text) in
      case TextBlob_sentences E text w of
        (Inl e, w1) \<Rightarrow> (Inl e, w1)
      | (Inr sentences, w1) \<Rightarrow>
      (case flesch_reading_ease E text w1 of
        (Inl e, w2) \<Rightarrow> (Inl e, w2)
      | (Inr fs, w2) \<Rightarrow>
      (case smog_index E text w2 of
        (Inl e, w3) \<Rightarrow> (Inl e, w3)
      | (Inr ss, w3) \<Rightarrow>
      (case detect E text w3 of
        (Inl e, w4) \<Rightarrow> (Inl e, w4)
      | (Inr lang, w4) \<Rightarrow>
          (Inr \<lparr>word_count = wc, sentence_count = length sentences,
                flesch_score = fs, smog_score = ss, language = lang\<rparr>, w4)))))"

definition translate_text :: "'w services \<Rightarrow> str \<Rightarrow> str \<Rightarrow> (str, 'w) ext" where
  "translate_text E text target_lang = GoogleTranslator_translate E target_lang text"

section \<open>Input acquisition\<close>

text \<open>
  An uploaded file has a declared MIME type and its bytes. The parsers are those of the
  standard library (\<^verbatim>\<open>bytes.decode("utf-8")\<close>), PyMuPDF (\<^verbatim>\<open>fitz.open\<close>, \<^verbatim>\<open>page.get_text()\<close>)
  and python-docx (\<^verbatim>\<open>docx.Document\<close>, \<^verbatim>\<open>para.text\<close>); each works on the bytes in memory.
\<close>

record uploaded_file =
  ftype :: str
  content :: "nat list"

record ('pg, 'pa) parsers =
  decode_utf8 :: "nat list \<Rightarrow> exn + str"
  fitz_open :: "nat list \<Rightarrow> exn + 'pg list"
  get_text :: "'pg \<Rightarrow> exn + str"
  docx_Document :: "nat list \<Rightarrow> exn + 'pa list"
  para_text :: "'pa \<Rightarrow> str"

definition read_file :: "('pg, 'pa) parsers \<Rightarrow> uploaded_file \<Rightarrow> exn + str" where
  "read_file P file =
     (if ftype file = ascii ''text/plain'' then decode_utf8 P (content file)
      else if ftype file = ascii ''application/pdf'' then
        (case fitz_open P (content file) of
           Inl e \<Rightarrow> Inl e
         | Inr doc \<Rightarrow>
             (case comprehension (get_text P) doc of
                Inl e \<Rightarrow> Inl e
              | Inr texts \<Rightarrow> Inr (str_join [10] texts)))
      else if ftype file =
          ascii ''application/vnd.openxmlformats-officedocument.wordprocessingml.document'' then
        (case docx_Document P (content file) of
           Inl e \<Rightarrow> Inl e
         | Inr doc \<Rightarrow> Inr (str_join [10] (map (para_text P) doc)))
      else Inr [])"

section \<open>What the page shows\<close>

text \<open>
  The calls of the presentation framework themselves are taken to return. The spinner shown
  while the handler works is gone when it ends and is left out.
\<close>

text \<open>
  An f-string is a list of pieces: literal text, an interpolated string, an integer, a float
  shown with one decimal (\<^verbatim>\<open>:.1f\<close>), and the base64 text of a string's UTF-8 bytes. An
  element is one call of the presentation framework; \<open>with_col i\<close> is a
  \<^verbatim>\<open>with col\<close>\<open>i\<close>\<^verbatim>\<open>:\<close> block of the two columns opened just before it.
\<close>

datatype piece = Lit string | Txt str | Num nat | Fixed1 rat | Base64 str

datatype element =
    st_warning "piece list"
  | st_error "piece list"
  | st_info "piece list"
  | st_subheader "piece list"
  | st_write "piece list"
  | st_metric "piece list" "piece list"
  | st_text_area "piece list" str
  | st_markdown "piece list"
  | with_col nat "element list"

definition metric_panel :: "piece list \<Rightarrow> metrics \<Rightarrow> element list" where
  "metric_panel title m =
     [st_subheader title,
      st_write [Lit ''Word Count: '', Num (word_count m)],
      st_write [Lit ''Sentence Count: '', Num (sentence_count m)],
      st_write [Lit ''Flesch Readability Score: '', Fixed1 (flesch_score m)],
      st_write [Lit ''SMOG Index: '', Fixed1 (smog_score m)],
      st_write [Lit ''Detected Language: '', Txt (language m)]]"

text \<open>
  Line 139 of the source. Python's \<^verbatim>\<open>/\<close> on two integers raises on a zero divisor and
  otherwise gives a float; the quotient is taken exactly here.
\<close>

definition compression_ratio :: "nat \<Rightarrow> nat \<Rightarrow> exn + rat" where
  "compression_ratio summary_wc original_wc =
     (if original_wc = 0 then Inl ZeroDivisionError
      else Inr ((1 - of_nat summary_wc / of_nat original_wc) * 100))"

definition get_download_link :: "str \<Rightarrow> str \<Rightarrow> piece list" where
  "get_download_link text filename =
     [Lit ''<a href='', Txt [34], Lit ''data:file/txt;base64,'', Base64 text, Txt [34],
      Lit '' download='', Txt [34], Txt filename, Txt [34], Lit ''>'', Txt [128190],
      Lit '' Download Summary</a>'']"

text \<open>The two messages of the \<^verbatim>\<open>except\<close> branch of the handler.\<close>

definition failed :: "exn \<Rightarrow> element list" where
  "failed e =
     [st_error [Lit ''An error occurred during summarization: '', Txt (exn_str e)],
      st_info [Lit ''Please try again with a different text or check your internet connection.'']]"

text \<open>
  Lines 120 to 161: everything the handler renders once its five calls have returned. The
  two panels are on the page when the ratio is computed, so an exception there leaves them
  and adds the two messages.
\<close>

definition render :: "metrics \<Rightarrow> metrics \<Rightarrow> str \<Rightarrow> element list" where
  "render original_metrics summary_metrics translated_summary =
     [with_col 1 (metric_panel [Txt [128202], Lit '' Original Text Metrics''] original_metrics),
      with_col 2 (metric_panel [Txt [128202], Lit '' Summary Metrics''] summary_metrics)] @
     (case compression_ratio (word_count summary_metrics) (word_count original_metrics) of
        Inl e \<Rightarrow> failed e
      | Inr cr \<Rightarrow>
          [st_metric [Lit ''Compression Ratio''] [Fixed1 cr, Lit ''%''],
           st_subheader [Txt [128221], Lit '' Summary:''],
           st_write [Txt translated_summary],
           with_col 1 [st_text_area [Lit ''Copy from here:''] translated_summary],
           with_col 2
             [st_markdown (get_download_link translated_summary (ascii ''summary.txt'')),
              st_info [Lit ''Click the link above to download the summary'']]])"

section \<open>The handler of the Summarize button\<close>

text \<open>
  The summarizer is the callable that \<^verbatim>\<open>pipeline("summarization", ...)\<close> returns: called with
  the text, \<^verbatim>\<open>max_length\<close> and \<^verbatim>\<open>min_length\<close> (and \<^verbatim>\<open>do_sample=False\<close>) it returns a list of
  dictionaries.
\<close>

type_synonym 'w summarizer = "str \<Rightarrow> nat \<Rightarrow> nat \<Rightarrow> ((str \<times> str) list list, 'w) ext"

text \<open>
  To speak about which calls a request makes, the model keeps a log beside the world: each
  call of the metrics calculator, the translator or the summarizer appends its arguments
  and how it ended. The log is not a variable of the script.
\<close>

datatype call = Metrics str | Translate str str | Summarize str nat nat

datatype returned = Got_metrics metrics | Got_text str | Got_summary "(str \<times> str) list list"

datatype outcome = Returned returned | Raised exn

type_synonym event = "call \<times> outcome"

definition traced ::
  "call \<Rightarrow> ('a \<Rightarrow> returned) \<Rightarrow> ('a, 'w) ext \<Rightarrow> ('a, 'w \<times> event list) ext" where
  "traced c tag f s =
     (case f (fst s) of
        (Inl e, w') \<Rightarrow> (Inl e, (w', snd s @ [(c, Raised e)]))
      | (Inr v, w') \<Rightarrow> (Inr v, (w', snd s @ [(c, Returned (tag v))])))"

text \<open>The widgets' values at the run of the script.\<close>

datatype input_mode = Manual_Text | Upload_Document

record widgets =
  input_mode :: input_mode
  text_area :: str
  file_uploader :: "uploaded_file option"
  min_len :: nat
  max_len :: nat
  target_lang :: str
  button :: bool

text \<open>Line 113: \<^verbatim>\<open>summary[0]['summary_text']\<close>.\<close>

definition summary_text :: "(str \<times> str) list list \<Rightarrow> exn + str" where
  "summary_text summary =
     (case list_getitem summary 0 of
        Inl e \<Rightarrow> Inl e
      | Inr first \<Rightarrow> dict_getitem first (ascii ''summary_text''))"

text \<open>Lines 106 to 164: the \<^verbatim>\<open>try\<close> block and its \<^verbatim>\<open>except Exception\<close>.\<close>

definition try_block ::
  "'w services \<Rightarrow> 'w summarizer \<Rightarrow> str \<Rightarrow> widgets \<Rightarrow> 'w \<times> event list
     \<Rightarrow> element list \<times> ('w \<times> event list)" where
  "try_block E summarizer text wd s =
     (case traced (Metrics text) Got_metrics (get_text_metrics E text) s of
        (Inl e, s1) \<Rightarrow> (failed e, s1)
      | (Inr original_metrics, s1) \<Rightarrow>
     (case traced (Translate text (ascii ''en'')) Got_text
             (translate_text E text (ascii ''en'')) s1 of
        (Inl e, s2) \<Rightarrow> (failed e, s2)
      | (Inr translated_input, s2) \<Rightarrow>
     (case traced (Summarize translated_input (max_len wd) (min_len wd)) Got_summary
             (summarizer translated_input (max_len wd) (min_len wd)) s2 of
        (Inl e, s3) \<Rightarrow> (failed e, s3)
      | (Inr summary, s3) \<Rightarrow>
     (case summary_text summary of
        Inl e \<Rightarrow> (failed e, s3)
      | Inr result \<Rightarrow>
     (case traced (Translate result (target_lang wd)) Got_text
             (translate_text E result (target_lang wd)) s3 of
        (Inl e, s4) \<Rightarrow> (failed e, s4)
      | (Inr translated_summary, s4) \<Rightarrow>
     (case traced (Metrics result) Got_metrics (get_text_metrics E result) s4 of
        (Inl e, s5) \<Rightarrow> (failed e, s5)
      | (Inr summary_metrics, s5) \<Rightarrow>
          (render original_metrics summary_metrics translated_summary, s5)))))))"

text \<open>Lines 99 to 105: the two checks before the \<^verbatim>\<open>try\<close> block.\<close>

definition on_summarize ::
  "'w services \<Rightarrow> 'w summarizer option \<Rightarrow> str \<Rightarrow> widgets \<Rightarrow> 'w \<times> event list
     \<Rightarrow> element list \<times> ('w \<times> event list)" where
  "on_summarize E summarizer text wd s =
     (if str_strip text = [] then
        ([st_warning [Lit ''Please enter or upload some text first.'']], s)
      else
        (case summarizer of
           None \<Rightarrow>
             ([st_error
                 [Lit ''Model failed to load. Please check your internet connection and try again.'']],
              s)
         | Some f \<Rightarrow> try_block E f text wd s))"

section \<open>Loading the model, and the runs of the script\<close>

text \<open>
  \<^verbatim>\<open>load_summarizer\<close>, lines 39 to 48: three calls into the model library, any exception of
  which is caught, reported with two messages and turned into \<^verbatim>\<open>None\<close>.
\<close>

record ('w, 't, 'm) hub =
  AutoTokenizer_from_pretrained :: "str \<Rightarrow> ('t, 'w) ext"
  AutoModelForSeq2SeqLM_from_pretrained :: "str \<Rightarrow> ('m, 'w) ext"
  pipeline :: "str \<Rightarrow> 'm \<Rightarrow> 't \<Rightarrow> ('w summarizer, 'w) ext"

definition load_failed :: "exn \<Rightarrow> element list" where
  "load_failed e =
     [st_error [Lit ''Error loading the model: '', Txt (exn_str e)],
      st_info [Lit ''Please make sure you have a stable internet connection and try again.'']]"

definition load_summarizer ::
  "('w, 't, 'm) hub \<Rightarrow> 'w \<Rightarrow> ('w summarizer option \<times> element list) \<times> 'w" where
  "load_summarizer H w =
     (let model_name = ascii ''sshleifer/distilbart-cnn-12-6'' in
      case AutoTokenizer_from_pretrained H model_name w of
        (Inl e, w1) \<Rightarrow> ((None, load_failed e), w1)
      | (Inr tokenizer, w1) \<Rightarrow>
      (case AutoModelForSeq2SeqLM_from_pretrained H model_name w1 of
        (Inl e, w2) \<Rightarrow> ((None, load_failed e), w2)
      | (Inr model, w2) \<Rightarrow>
      (case pipeline H (ascii ''summarization'') model tokenizer w2 of
        (Inl e, w3) \<Rightarrow> ((None, load_failed e), w3)
      | (Inr p, w3) \<Rightarrow> ((Some p, []), w3))))"

text \<open>
  The process: the world, the slot in which the decorator \<^verbatim>\<open>st.cache_resource\<close> keeps what
  \<^verbatim>\<open>load_summarizer\<close> returned, and a count of how often the body of \<^verbatim>\<open>load_summarizer\<close> ran
  (kept by the model, to speak about retries).

  Modelled from the spec: the decorator \<^verbatim>\<open>st.cache_resource\<close> belongs to the presentation
  framework and is not in the source; the spec says of it that "loading happens once per
  process lifetime and is cached for reuse". So the first call runs the body and stores
  its value, \<^verbatim>\<open>None\<close> included, and every later call returns the stored value.
\<close>

record 'w process =
  world :: 'w
  resource_cache :: "'w summarizer option option"
  loads :: nat

definition cached_load_summarizer ::
  "('w, 't, 'm) hub \<Rightarrow> 'w process \<Rightarrow> 'w summarizer option \<times> 'w process" where
  "cached_load_summarizer H st =
     (case resource_cache st of
        Some r \<Rightarrow> (r, st)
      | None \<Rightarrow>
          (case load_summarizer H (world st) of
             ((r, msgs), w') \<Rightarrow>
               (r, st\<lparr>world := w', resource_cache := Some r, loads := loads st + 1\<rparr>)))"

text \<open>Lines 84 to 91: the text of the request. An exception of \<^verbatim>\<open>read_file\<close> is not caught.\<close>

definition read_input :: "('pg, 'pa) parsers \<Rightarrow> widgets \<Rightarrow> exn + str" where
  "read_input P wd =
     (case input_mode wd of
        Manual_Text \<Rightarrow> Inr (text_area wd)
      | Upload_Document \<Rightarrow>
          (case file_uploader wd of None \<Rightarrow> Inr [] | Some file \<Rightarrow> read_file P file))"

text \<open>
  One run of the script, which the framework starts again at every interaction: the
  summarizer is looked up, the text is read, and when the button was pressed the handler
  runs. The result is what the handler rendered and the calls it made, or the exception
  that ended the run. The input widgets, the loader's two messages and the notice that a
  document was loaded are on the page too and are left out, as are the certificate and
  tokenizer-data set-up at the top of the script.
\<close>

definition run_script ::
  "('w, 't, 'm) hub \<Rightarrow> ('pg, 'pa) parsers \<Rightarrow> 'w services \<Rightarrow> 'w process \<Rightarrow> widgets
     \<Rightarrow> (exn + element list \<times> event list) \<times> 'w process" where
  "run_script H P E st wd =
     (case cached_load_summarizer H st of
        (summarizer, st1) \<Rightarrow>
          (case read_input P wd of
             Inl e \<Rightarrow> (Inl e, st1)
           | Inr text \<Rightarrow>
               if button wd then
                 (case on_summarize E summarizer text wd (world st1, []) of
                    (out, (w', evs)) \<Rightarrow> (Inr (out, evs), st1\<lparr>world := w'\<rparr>))
               else (Inr ([], []), st1)))"

fun session ::
  "('w, 't, 'm) hub \<Rightarrow> ('pg, 'pa) parsers \<Rightarrow> 'w services \<Rightarrow> 'w process \<Rightarrow> widgets list
     \<Rightarrow> (exn + element list \<times> event list) list \<times> 'w process" where
  "session H P E st [] = ([], st)"
| "session H P E st (wd # wds) =
     (case run_script H P E st wd of
        (r, st1) \<Rightarrow> (case session H P E st1 wds of (rs, st2) \<Rightarrow> (r # rs, st2)))"

section \<open>The specification's words\<close>

text \<open>
  The tokens obtained by splitting a text on white space are its maximal runs of characters
  that are not white space. Their number is the number of places where such a run starts:
  a character that is not white space, at the start of the text or after white space.
\<close>

fun token_starts :: "bool \<Rightarrow> str \<Rightarrow> nat" where
  "token_starts after_space [] = 0"
| "token_starts after_space (c # cs) =
     (if \<not> isspace c \<and> after_space then 1 else 0) + token_starts (isspace c) cs"

definition whitespace_token_count :: "str \<Rightarrow> nat" where
  "whitespace_token_count T = token_starts True T"


section \<open>Collaborators for concrete runs\<close>

text \<open>
  Small stand-ins for the libraries, with a counter of calls as the world: a translator
  that puts the target code in front of the text, a summarizer that keeps the first twelve
  characters, one sentence per text, fixed scores.
\<close>

definition demo_services :: "nat services" where
  "demo_services =
     \<lparr>TextBlob_sentences = (\<lambda>t w. (Inr [t], Suc w)),
      flesch_reading_ease = (\<lambda>t w. (Inr 60, Suc w)),
      smog_index = (\<lambda>t w. (Inr 8, Suc w)),
      detect = (\<lambda>t w. (Inr (ascii ''en''), Suc w)),
      GoogleTranslator_translate = (\<lambda>target t w. (Inr (target @ [58] @ t), Suc w))\<rparr>"

definition demo_summarizer :: "nat summarizer" where
  "demo_summarizer t maxl minl w = (Inr [[(ascii ''summary_text'', take 12 t)]], Suc w)"

text \<open>The translation service out of reach.\<close>

definition offline_services :: "nat services" where
  "offline_services =
     demo_services\<lparr>GoogleTranslator_translate :=
       (\<lambda>target t w. (Inl (LibraryError (ascii ''timed out'')), Suc w))\<rparr>"

text \<open>A language detector that draws from a generator nobody seeded.\<close>

definition unseeded_services :: "nat services" where
  "unseeded_services =
     demo_services\<lparr>detect :=
       (\<lambda>t w. (Inr (if w mod 3 = 0 then ascii ''en'' else ascii ''fr''), Suc w))\<rparr>"

text \<open>A model hub that cannot be reached, and one that answers.\<close>

definition offline_hub :: "(nat, unit, unit) hub" where
  "offline_hub =
     \<lparr>AutoTokenizer_from_pretrained = (\<lambda>name w. (Inl (LibraryError (ascii ''no route'')), Suc w)),
      AutoModelForSeq2SeqLM_from_pretrained = (\<lambda>name w. (Inr (), Suc w)),
      pipeline = (\<lambda>task m t w. (Inr demo_summarizer, Suc w))\<rparr>"

text \<open>Parsers of a toy format in which pages and paragraphs are the words of the file.\<close>

definition demo_parsers :: "(str, str) parsers" where
  "demo_parsers =
     \<lparr>decode_utf8 = (\<lambda>bs. if list_all (\<lambda>b. b < 128) bs then Inr bs
                           else Inl (LibraryError (ascii ''invalid start byte''))),
      fitz_open = (\<lambda>bs. Inr (str_split bs)),
      get_text = (\<lambda>pg. Inr pg),
      docx_Document = (\<lambda>bs. Inr (str_split bs)),
      para_text = (\<lambda>pa. pa)\<rparr>"

definition demo_widgets :: "str \<Rightarrow> widgets" where
  "demo_widgets t =
     \<lparr>input_mode = Manual_Text, text_area = t, file_uploader = None,
      min_len = 30, max_len = 60, target_lang = ascii ''es'', button = True\<rparr>"

definition demo_text :: str where
  "demo_text = ascii ''to be  or not''"

text \<open>A summarizer that raises, as the model does on an input beyond its positions.\<close>

definition failing_summarizer :: "nat summarizer" where
  "failing_summarizer t maxl minl w =
     (Inl (LibraryError (ascii ''index out of range in self'')), Suc w)"

text \<open>A process that has just started.\<close>

definition fresh_process :: "nat process" where
  "fresh_process = \<lparr>world = 0, resource_cache = None, loads = 0\<rparr>"

section \<open>Libraries that answer by the text alone\<close>

text \<open>
  A library call answers by the text alone when what it returns or raises for a text is the
  same in every world, whatever it does to the world.
\<close>

definition answers_by_text :: "(str \<Rightarrow> ('a, 'w) ext) \<Rightarrow> str \<Rightarrow> bool" where
  "answers_by_text f T \<longleftrightarrow> (\<forall>w w'. fst (f T w) = fst (f T w'))"

section \<open>Blank texts and words\<close>

text \<open>
  The blank check of the handler and the word count of the metrics calculator look at the
  same characters: a text has a character that is not white space exactly when stripping
  leaves something, and exactly when splitting gives a word.
\<close>

lemma dropWhile_keeps: "(\<exists>x \<in> set (dropWhile P s). \<not> P x) \<longleftrightarrow> (\<exists>x \<in> set s. \<not> P x)"
  by (induction s) auto

lemma str_strip_nonempty_iff: "str_strip s \<noteq> [] \<longleftrightarrow> (\<exists>c \<in> set s. \<not> isspace c)"
proof -
  have "str_strip s \<noteq> [] \<longleftrightarrow> (\<exists>x \<in> set (dropWhile isspace s). \<not> isspace x)"
    by (simp add: str_strip_def dropWhile_eq_Nil_conv)
  then show ?thesis
    by (simp only: dropWhile_keeps)
qed

lemma str_split_nonempty_iff: "str_split s \<noteq> [] \<longleftrightarrow> (\<exists>c \<in> set s. \<not> isspace c)"
  by (induction s rule: str_split.induct) auto

lemma nonblank_has_word: "str_strip s \<noteq> [] \<Longrightarrow> 0 < length (str_split s)"
  by (simp add: str_strip_nonempty_iff str_split_nonempty_iff)

text \<open>
  What \<open>str_split\<close> returns are the words of the text: none is empty, none holds white
  space, and together they are the text without its white space.
\<close>

lemma str_split_token_nonempty: "t \<in> set (str_split s) \<Longrightarrow> t \<noteq> []"
  by (induction s rule: str_split.induct) (auto split: if_splits)

lemma str_split_token_no_space: "t \<in> set (str_split s) \<Longrightarrow> c \<in> set t \<Longrightarrow> \<not> isspace c"
  by (induction s rule: str_split.induct) (auto split: if_splits dest: set_takeWhileD)

lemma str_split_concat: "concat (str_split s) = filter (\<lambda>c. \<not> isspace c) s"
proof (induction s rule: str_split.induct)
  case 1
  then show ?case by simp
next
  case (2 c cs)
  have "filter (\<lambda>c. \<not> isspace c) cs =
        takeWhile (\<lambda>x. \<not> isspace x) cs @
        filter (\<lambda>c. \<not> isspace c) (dropWhile (\<lambda>x. \<not> isspace x) cs)"
    by (metis filter_append takeWhile_dropWhile_id filter_id_conv set_takeWhileD)
  with 2 show ?case by auto
qed

text \<open>\<open>str_split\<close> finds as many words as the text has runs that are not white space.\<close>

lemma token_starts_inside_word:
  "token_starts False cs = token_starts True (dropWhile (\<lambda>x. \<not> isspace x) cs)"
  by (induction cs) simp_all

lemma str_split_counts_tokens: "length (str_split T) = whitespace_token_count T"
  unfolding whitespace_token_count_def
  by (induction T rule: str_split.induct) (simp_all add: token_starts_inside_word)

section \<open>The metrics calculator\<close>

text \<open>
  C5. For every non-empty text \<open>T\<close> on which the metrics calculator returns, the
  \<open>word_count\<close> it returns is the length of \<^verbatim>\<open>T.split()\<close>, which is the number of tokens
  obtained by splitting \<open>T\<close> on white space. (The calculator returns whenever its four
  library calls do; the count does not depend on them.)
\<close>

theorem word_count_is_split_length:
  assumes "T \<noteq> []" and "get_text_metrics E T w = (Inr m, w')"
  shows "word_count m = length (str_split T) \<and> word_count m = whitespace_token_count T"
proof -
  from assms(2) have "word_count m = length (str_split T)"
    by (auto simp: get_text_metrics_def Let_def split: prod.splits sum.splits)
  then show ?thesis
    by (simp add: str_split_counts_tokens)
qed

theorem word_count_is_split_length_witness:
  "ascii ''to be  or not'' \<noteq> [] \<and>
   get_text_metrics demo_services (ascii ''to be  or not'') 0 =
     (Inr \<lparr>word_count = 4, sentence_count = 1, flesch_score = 60, smog_score = 8,
           language = ascii ''en''\<rparr>, 4) \<and>
   str_split (ascii ''to be  or not'') = [ascii ''to'', ascii ''be'', ascii ''or'', ascii ''not''] \<and>
   whitespace_token_count (ascii ''to be  or not'') = 4"
proof -
  have a: "ascii ''to be  or not'' \<noteq> []"
    by (simp add: ascii_def)
  have b: "get_text_metrics demo_services (ascii ''to be  or not'') 0 =
     (Inr \<lparr>word_count = 4, sentence_count = 1, flesch_score = 60, smog_score = 8,
           language = ascii ''en''\<rparr>, 4)"
    by (simp add: get_text_metrics_def demo_services_def ascii_def isspace_def)
  have c: "str_split (ascii ''to be  or not'') =
      [ascii ''to'', ascii ''be'', ascii ''or'', ascii ''not'']"
    by (simp add: ascii_def isspace_def)
  from word_count_is_split_length [OF a b] a b c show ?thesis
    by simp
qed

subsection \<open>Runs of the stand-ins\<close>

lemma demo_text_not_blank: "str_strip demo_text \<noteq> []"
  by (simp add: demo_text_def str_strip_def ascii_def isspace_def)

lemma demo_metrics_original:
  "get_text_metrics demo_services demo_text w =
     (Inr \<lparr>word_count = 4, sentence_count = 1, flesch_score = 60, smog_score = 8,
           language = ascii ''en''\<rparr>, w + 4)"
  by (simp add: get_text_metrics_def demo_services_def demo_text_def ascii_def isspace_def)

lemma demo_metrics_summary:
  "get_text_metrics demo_services (ascii ''en:to be  or'') w =
     (Inr \<lparr>word_count = 3, sentence_count = 1, flesch_score = 60, smog_score = 8,
           language = ascii ''en''\<rparr>, w + 4)"
  by (simp add: get_text_metrics_def demo_services_def ascii_def isspace_def)

lemma offline_metrics_original:
  "get_text_metrics offline_services demo_text w =
     (Inr \<lparr>word_count = 4, sentence_count = 1, flesch_score = 60, smog_score = 8,
           language = ascii ''en''\<rparr>, w + 4)"
  by (simp add: get_text_metrics_def offline_services_def demo_services_def demo_text_def
      ascii_def isspace_def)

lemma demo_translations:
  "translate_text demo_services demo_text (ascii ''en'') w =
     (Inr (ascii ''en:to be  or not''), Suc w)"
  "translate_text demo_services (ascii ''en:to be  or'') (ascii ''es'') w =
     (Inr (ascii ''es:en:to be  or''), Suc w)"
  "translate_text offline_services t l w = (Inl (LibraryError (ascii ''timed out'')), Suc w)"
  by (simp_all add: translate_text_def demo_services_def offline_services_def demo_text_def
      ascii_def)

lemma demo_summary:
  "demo_summarizer (ascii ''en:to be  or not'') maxl minl w =
     (Inr [[(ascii ''summary_text'', ascii ''en:to be  or'')]], Suc w)"
  "summary_text [[(ascii ''summary_text'', ascii ''en:to be  or'')]] =
     Inr (ascii ''en:to be  or'')"
  by (simp_all add: demo_summarizer_def summary_text_def list_getitem_def dict_getitem_def
      ascii_def)

lemmas demo_simps = on_summarize_def try_block_def traced_def demo_metrics_original
  demo_metrics_summary offline_metrics_original demo_text_not_blank demo_translations
  demo_summary demo_widgets_def

subsection \<open>Two calls on the same string\<close>

lemma get_text_metrics_by_text:
  assumes "answers_by_text (TextBlob_sentences E) T"
    and "answers_by_text (flesch_reading_ease E) T"
    and "answers_by_text (smog_index E) T"
    and "answers_by_text (detect E) T"
  shows "fst (get_text_metrics E T w) = fst (get_text_metrics E T w')"
proof -
  have a: "fst (TextBlob_sentences E T u) = fst (TextBlob_sentences E T v)" for u v
    using assms(1) by (simp add: answers_by_text_def)
  have b: "fst (flesch_reading_ease E T u) = fst (flesch_reading_ease E T v)" for u v
    using assms(2) by (simp add: answers_by_text_def)
  have c: "fst (smog_index E T u) = fst (smog_index E T v)" for u v
    using assms(3) by (simp add: answers_by_text_def)
  have d: "fst (detect E T u) = fst (detect E T v)" for u v
    using assms(4) by (simp add: answers_by_text_def)
  obtain r1 u1 where s1: "TextBlob_sentences E T w = (r1, u1)"
    by (cases "TextBlob_sentences E T w")
  obtain r1' u1' where s1': "TextBlob_sentences E T w' = (r1', u1')"
    by (cases "TextBlob_sentences E T w'")
  from a [of w w'] s1 s1' have e1: "r1' = r1" by simp
  obtain r2 u2 where s2: "flesch_reading_ease E T u1 = (r2, u2)"
    by (cases "flesch_reading_ease E T u1")
  obtain r2' u2' where s2': "flesch_reading_ease E T u1' = (r2', u2')"
    by (cases "flesch_reading_ease E T u1'")
  from b [of u1 u1'] s2 s2' have e2: "r2' = r2" by simp
  obtain r3 u3 where s3: "smog_index E T u2 = (r3, u3)"
    by (cases "smog_index E T u2")
  obtain r3' u3' where s3': "smog_index E T u2' = (r3', u3')"
    by (cases "smog_index E T u2'")
  from c [of u2 u2'] s3 s3' have e3: "r3' = r3" by simp
  obtain r4 u4 where s4: "detect E T u3 = (r4, u4)"
    by (cases "detect E T u3")
  obtain r4' u4' where s4': "detect E T u3' = (r4', u4')"
    by (cases "detect E T u3'")
  from d [of u3 u3'] s4 s4' have e4: "r4' = r4" by simp
  show ?thesis
    unfolding get_text_metrics_def Let_def
    by (simp add: s1 s1' e1 s2 s2' e2 s3 s3' e3 s4 s4' e4 split: sum.splits)
qed

lemma demo_answers_by_text:
  "answers_by_text (TextBlob_sentences demo_services) T"
  "answers_by_text (flesch_reading_ease demo_services) T"
  "answers_by_text (smog_index demo_services) T"
  "answers_by_text (detect demo_services) T"
  by (simp_all add: answers_by_text_def demo_services_def)

text \<open>
  C9, as the code has it. Of two calls of the metrics calculator on the same string, the
  second starting in the world the first one left: the two \<open>word_count\<close>s are equal
  whenever both calls return, and the two results are equal in every field (or are the same
  exception) whenever each of the four library calls answers by the text alone. The
  calculator keeps no state of its own: what it returns is a function of the text and of
  what the libraries answer.
\<close>

theorem metrics_repeatable:
  assumes "get_text_metrics E T w = (r1, w1)" and "get_text_metrics E T w1 = (r2, w2)"
  shows "(answers_by_text (TextBlob_sentences E) T \<and>
          answers_by_text (flesch_reading_ease E) T \<and>
          answers_by_text (smog_index E) T \<and>
          answers_by_text (detect E) T \<longrightarrow> r1 = r2) \<and>
         (\<forall>m1 m2. r1 = Inr m1 \<and> r2 = Inr m2 \<longrightarrow> word_count m1 = word_count m2)"
proof -
  have "r1 = r2"
    if "answers_by_text (TextBlob_sentences E) T" "answers_by_text (flesch_reading_ease E) T"
      "answers_by_text (smog_index E) T" "answers_by_text (detect E) T"
    using get_text_metrics_by_text [OF that, of w w1] assms by simp
  moreover have "word_count m1 = word_count m2" if "r1 = Inr m1" "r2 = Inr m2" for m1 m2
    using that assms
    by (auto simp: get_text_metrics_def Let_def split: prod.splits sum.splits)
  ultimately show ?thesis by blast
qed

theorem metrics_repeatable_witness:
  "get_text_metrics demo_services demo_text 0 =
     (Inr \<lparr>word_count = 4, sentence_count = 1, flesch_score = 60, smog_score = 8,
           language = ascii ''en''\<rparr>, 4) \<and>
   get_text_metrics demo_services demo_text 4 =
     (Inr \<lparr>word_count = 4, sentence_count = 1, flesch_score = 60, smog_score = 8,
           language = ascii ''en''\<rparr>, 8) \<and>
   answers_by_text (TextBlob_sentences demo_services) demo_text \<and>
   answers_by_text (flesch_reading_ease demo_services) demo_text \<and>
   answers_by_text (smog_index demo_services) demo_text \<and>
   answers_by_text (detect demo_services) demo_text"
proof -
  have a: "get_text_metrics demo_services demo_text 0 =
     (Inr \<lparr>word_count = 4, sentence_count = 1, flesch_score = 60, smog_score = 8,
           language = ascii ''en''\<rparr>, 4)"
    by (simp add: demo_metrics_original)
  have b: "get_text_metrics demo_services demo_text 4 =
     (Inr \<lparr>word_count = 4, sentence_count = 1, flesch_score = 60, smog_score = 8,
           language = ascii ''en''\<rparr>, 8)"
    by (simp add: demo_metrics_original)
  from metrics_repeatable [OF a b] a b demo_answers_by_text [of demo_text] show ?thesis
    by simp
qed

text \<open>
  C9 as the specification words it, without the condition on the libraries, fails: with a
  language detector whose answer depends on its own state (as one that samples from a
  generator the script never seeds), the second call on the same string returns another
  language than the first.
\<close>

theorem unseeded_detector_counterexample:
  "get_text_metrics unseeded_services demo_text 0 =
     (Inr \<lparr>word_count = 4, sentence_count = 1, flesch_score = 60, smog_score = 8,
           language = ascii ''en''\<rparr>, 4) \<and>
   get_text_metrics unseeded_services demo_text 4 =
     (Inr \<lparr>word_count = 4, sentence_count = 1, flesch_score = 60, smog_score = 8,
           language = ascii ''fr''\<rparr>, 8) \<and>
   ascii ''en'' \<noteq> ascii ''fr''"
  by (simp add: get_text_metrics_def unseeded_services_def demo_services_def demo_text_def
      ascii_def isspace_def)

section \<open>Reading an uploaded file\<close>

lemma comprehension_all_return:
  "(\<forall>x \<in> set xs. f x = Inr (g x)) \<Longrightarrow> comprehension f xs = Inr (map g xs)"
  by (induction xs) simp_all

lemma mime_types_differ:
  "ascii ''application/pdf'' \<noteq> ascii ''text/plain''"
  "ascii ''application/vnd.openxmlformats-officedocument.wordprocessingml.document'' \<noteq> ascii ''text/plain''"
  "ascii ''application/vnd.openxmlformats-officedocument.wordprocessingml.document'' \<noteq> ascii ''application/pdf''"
  by (simp_all add: ascii_def)

text \<open>
  C4. \<open>read_file\<close> dispatches on the declared type of the file. For a plain-text file it
  returns what decoding the bytes as UTF-8 gives. For a PDF that opens and whose pages all
  give their text, it returns these texts joined with newlines, in page order. For a DOCX
  that opens, it returns the texts of the paragraphs joined with newlines, in document
  order. For every other declared type it returns the empty string, and no exception.
\<close>

theorem read_file_dispatch:
  "(ftype file = ascii ''text/plain'' \<longrightarrow> read_file P file = decode_utf8 P (content file)) \<and>
   (ftype file = ascii ''application/pdf'' \<and> fitz_open P (content file) = Inr pages \<and>
      (\<forall>pg \<in> set pages. get_text P pg = Inr (page_text pg)) \<longrightarrow>
      read_file P file = Inr (str_join [10] (map page_text pages))) \<and>
   (ftype file = ascii ''application/vnd.openxmlformats-officedocument.wordprocessingml.document'' \<and>
      docx_Document P (content file) = Inr paragraphs \<longrightarrow>
      read_file P file = Inr (str_join [10] (map (para_text P) paragraphs))) \<and>
   (ftype file \<noteq> ascii ''text/plain'' \<and> ftype file \<noteq> ascii ''application/pdf'' \<and>
    ftype file \<noteq> ascii ''application/vnd.openxmlformats-officedocument.wordprocessingml.document'' \<longrightarrow>
      read_file P file = Inr [])"
proof (intro conjI impI)
  assume "ftype file = ascii ''text/plain''"
  then show "read_file P file = decode_utf8 P (content file)"
    by (simp add: read_file_def)
next
  assume a: "ftype file = ascii ''application/pdf'' \<and> fitz_open P (content file) = Inr pages \<and>
      (\<forall>pg \<in> set pages. get_text P pg = Inr (page_text pg))"
  then have "comprehension (get_text P) pages = Inr (map page_text pages)"
    by (simp add: comprehension_all_return)
  with a show "read_file P file = Inr (str_join [10] (map page_text pages))"
    by (simp add: read_file_def mime_types_differ)
next
  assume "ftype file = ascii ''application/vnd.openxmlformats-officedocument.wordprocessingml.document'' \<and>
      docx_Document P (content file) = Inr paragraphs"
  then show "read_file P file = Inr (str_join [10] (map (para_text P) paragraphs))"
    by (simp add: read_file_def mime_types_differ)
next
  assume "ftype file \<noteq> ascii ''text/plain'' \<and> ftype file \<noteq> ascii ''application/pdf'' \<and>
    ftype file \<noteq> ascii ''application/vnd.openxmlformats-officedocument.wordprocessingml.document''"
  then show "read_file P file = Inr []"
    by (simp add: read_file_def)
qed

theorem read_file_dispatch_witness:
  "read_file demo_parsers \<lparr>ftype = ascii ''text/plain'', content = ascii ''hi there''\<rparr> = Inr (ascii ''hi there'') \<and>
   read_file demo_parsers \<lparr>ftype = ascii ''application/pdf'', content = ascii ''one two''\<rparr> = Inr (ascii ''one'' @ [10] @ ascii ''two'') \<and>
   read_file demo_parsers \<lparr>ftype = ascii ''application/vnd.openxmlformats-officedocument.wordprocessingml.document'', content = ascii ''p q r''\<rparr> =
     Inr (ascii ''p'' @ [10] @ ascii ''q'' @ [10] @ ascii ''r'') \<and>
   read_file demo_parsers \<lparr>ftype = ascii ''image/png'', content = [137, 80, 78, 71]\<rparr> = Inr []"
proof -
  have pdf: "fitz_open demo_parsers (content \<lparr>ftype = ascii ''application/pdf'', content = ascii ''one two''\<rparr>) =
      Inr [ascii ''one'', ascii ''two'']"
    by (simp add: demo_parsers_def ascii_def isspace_def)
  have pages: "\<forall>pg \<in> set [ascii ''one'', ascii ''two'']. get_text demo_parsers pg = Inr (id pg)"
    by (simp add: demo_parsers_def)
  have docx: "docx_Document demo_parsers (content \<lparr>ftype = ascii ''application/vnd.openxmlformats-officedocument.wordprocessingml.document'', content = ascii ''p q r''\<rparr>) =
      Inr [ascii ''p'', ascii ''q'', ascii ''r'']"
    by (simp add: demo_parsers_def ascii_def isspace_def)
  have plain: "decode_utf8 demo_parsers (ascii ''hi there'') = Inr (ascii ''hi there'')"
    by (simp add: demo_parsers_def ascii_def)
  have png: "ascii ''image/png'' \<noteq> ascii ''text/plain'' \<and> ascii ''image/png'' \<noteq> ascii ''application/pdf'' \<and>
      ascii ''image/png'' \<noteq> ascii ''application/vnd.openxmlformats-officedocument.wordprocessingml.document''"
    by (simp add: ascii_def)
  have para: "para_text demo_parsers = (\<lambda>pa. pa)"
    by (simp add: demo_parsers_def)
  from read_file_dispatch [of "\<lparr>ftype = ascii ''text/plain'', content = ascii ''hi there''\<rparr>" demo_parsers]
    read_file_dispatch [of "\<lparr>ftype = ascii ''application/pdf'', content = ascii ''one two''\<rparr>" demo_parsers
      "[ascii ''one'', ascii ''two'']" id]
    read_file_dispatch [of "\<lparr>ftype = ascii ''application/vnd.openxmlformats-officedocument.wordprocessingml.document'', content = ascii ''p q r''\<rparr>"
      demo_parsers _ _ "[ascii ''p'', ascii ''q'', ascii ''r'']"]
    read_file_dispatch [of "\<lparr>ftype = ascii ''image/png'', content = [137, 80, 78, 71]\<rparr>" demo_parsers]
    pdf pages docx plain png
  show ?thesis
    by (simp add: para)
qed

section \<open>The handler\<close>

text \<open>
  Every run of the \<^verbatim>\<open>try\<close> block ends in one of seven ways: one of the five calls raised,
  or the summarizer's result had no first entry with a \<^verbatim>\<open>summary_text\<close>, or all five calls
  returned and the results were rendered.
\<close>

lemma try_block_forms:
  assumes "try_block E f text wd (w, []) = (out, (w', evs))"
  shows
    "(\<exists>e. evs = [(Metrics text, Raised e)] \<and> out = failed e)
   \<or> (\<exists>om e. evs = [(Metrics text, Returned (Got_metrics om)),
                     (Translate text (ascii ''en''), Raised e)] \<and> out = failed e)
   \<or> (\<exists>om ti e. evs = [(Metrics text, Returned (Got_metrics om)),
                        (Translate text (ascii ''en''), Returned (Got_text ti)),
                        (Summarize ti (max_len wd) (min_len wd), Raised e)] \<and> out = failed e)
   \<or> (\<exists>om ti summary e. evs = [(Metrics text, Returned (Got_metrics om)),
                        (Translate text (ascii ''en''), Returned (Got_text ti)),
                        (Summarize ti (max_len wd) (min_len wd), Returned (Got_summary summary))]
          \<and> summary_text summary = Inl e \<and> out = failed e)
   \<or> (\<exists>om ti summary result e. evs = [(Metrics text, Returned (Got_metrics om)),
                        (Translate text (ascii ''en''), Returned (Got_text ti)),
                        (Summarize ti (max_len wd) (min_len wd), Returned (Got_summary summary)),
                        (Translate result (target_lang wd), Raised e)]
          \<and> summary_text summary = Inr result \<and> out = failed e)
   \<or> (\<exists>om ti summary result ts e. evs = [(Metrics text, Returned (Got_metrics om)),
                        (Translate text (ascii ''en''), Returned (Got_text ti)),
                        (Summarize ti (max_len wd) (min_len wd), Returned (Got_summary summary)),
                        (Translate result (target_lang wd), Returned (Got_text ts)),
                        (Metrics result, Raised e)]
          \<and> summary_text summary = Inr result \<and> out = failed e)
   \<or> (\<exists>om ti summary result ts sm. evs = [(Metrics text, Returned (Got_metrics om)),
                        (Translate text (ascii ''en''), Returned (Got_text ti)),
                        (Summarize ti (max_len wd) (min_len wd), Returned (Got_summary summary)),
                        (Translate result (target_lang wd), Returned (Got_text ts)),
                        (Metrics result, Returned (Got_metrics sm))]
          \<and> summary_text summary = Inr result
          \<and> word_count om = length (str_split text)
          \<and> out = render om sm ts)"
  using assms
  unfolding try_block_def traced_def
  by (auto split: prod.splits sum.splits simp: get_text_metrics_def Let_def)

lemma on_summarize_valid:
  "str_strip text \<noteq> [] \<Longrightarrow> on_summarize E (Some f) text wd s = try_block E f text wd s"
  by (simp add: on_summarize_def)

lemma demo_run:
  "on_summarize demo_services (Some demo_summarizer) demo_text (demo_widgets demo_text) (0, []) =
     (render \<lparr>word_count = 4, sentence_count = 1, flesch_score = 60, smog_score = 8, language = ascii ''en''\<rparr>
             \<lparr>word_count = 3, sentence_count = 1, flesch_score = 60, smog_score = 8, language = ascii ''en''\<rparr>
             (ascii ''es:en:to be  or''),
      (11,
       [(Metrics demo_text, Returned (Got_metrics \<lparr>word_count = 4, sentence_count = 1, flesch_score = 60, smog_score = 8, language = ascii ''en''\<rparr>)),
        (Translate demo_text (ascii ''en''), Returned (Got_text (ascii ''en:to be  or not''))),
        (Summarize (ascii ''en:to be  or not'') 60 30, Returned (Got_summary [[(ascii ''summary_text'', ascii ''en:to be  or'')]])),
        (Translate (ascii ''en:to be  or'') (ascii ''es''), Returned (Got_text (ascii ''es:en:to be  or''))),
        (Metrics (ascii ''en:to be  or''), Returned (Got_metrics \<lparr>word_count = 3, sentence_count = 1, flesch_score = 60, smog_score = 8, language = ascii ''en''\<rparr>))]))"
  by (simp add: demo_simps)

lemma offline_run:
  "on_summarize offline_services (Some demo_summarizer) demo_text (demo_widgets demo_text) (0, []) =
     (failed (LibraryError (ascii ''timed out'')),
      (5,
       [(Metrics demo_text, Returned (Got_metrics \<lparr>word_count = 4, sentence_count = 1, flesch_score = 60, smog_score = 8, language = ascii ''en''\<rparr>)),
        (Translate demo_text (ascii ''en''), Raised (LibraryError (ascii ''timed out'')))]))"
  by (simp add: demo_simps)

lemma failing_summarizer_run:
  "on_summarize demo_services (Some failing_summarizer) demo_text (demo_widgets demo_text) (0, []) =
     (failed (LibraryError (ascii ''index out of range in self'')),
      (6,
       [(Metrics demo_text, Returned (Got_metrics \<lparr>word_count = 4, sentence_count = 1, flesch_score = 60, smog_score = 8, language = ascii ''en''\<rparr>)),
        (Translate demo_text (ascii ''en''), Returned (Got_text (ascii ''en:to be  or not''))),
        (Summarize (ascii ''en:to be  or not'') 60 30, Raised (LibraryError (ascii ''index out of range in self'')))]))"
  by (simp add: demo_simps failing_summarizer_def)

text \<open>
  C2. For every input text that is blank (empty, or white space only), the handler renders
  the warning that asks for some text and nothing else, whatever the state of the
  summarizer; it makes no call of the metrics calculator, the translator or the summarizer,
  and leaves the world as it found it.
\<close>

theorem blank_input_rejected:
  assumes "str_strip text = []"
  shows "on_summarize E summarizer text wd (w, []) =
           ([st_warning [Lit ''Please enter or upload some text first.'']], (w, []))"
  using assms by (simp add: on_summarize_def)

theorem blank_input_rejected_witness:
  "str_strip [32, 9, 10, 12288] = [] \<and>
   on_summarize demo_services (Some demo_summarizer) [32, 9, 10, 12288] (demo_widgets [32, 9, 10, 12288]) (0, []) =
     ([st_warning [Lit ''Please enter or upload some text first.'']], (0, [])) \<and>
   str_strip [] = [] \<and>
   on_summarize offline_services None [] (demo_widgets []) (7, []) =
     ([st_warning [Lit ''Please enter or upload some text first.'']], (7, []))"
proof -
  have a: "str_strip [32, 9, 10, 12288] = []"
    by (simp add: str_strip_def isspace_def)
  have b: "str_strip [] = []"
    by (simp add: str_strip_def)
  from blank_input_rejected [OF a, of demo_services "Some demo_summarizer" "demo_widgets [32, 9, 10, 12288]" 0]
    blank_input_rejected [OF b, of offline_services None "demo_widgets []" 7] a b
  show ?thesis by simp
qed




text \<open>
  C3. In a request that passes validation, whenever a call raises (the summarizer, either
  call of the translator, and the metrics calculator as well), the handler itself returns
  and renders exactly two elements: the error "An error occurred during summarization: "
  followed by the exception's text, and the hint to try again with a different text or to
  check the internet connection. The call that raised is the last call of the request, so
  it is not made again, and every call before it had returned.
\<close>

theorem exception_caught_once:
  assumes "str_strip text \<noteq> []"
    and "on_summarize E (Some f) text wd (w, []) = (out, (w', evs))"
    and "(c, Raised e) \<in> set evs"
  shows "out = [st_error [Lit ''An error occurred during summarization: '', Txt (exn_str e)],
                st_info [Lit ''Please try again with a different text or check your internet connection.'']] \<and>
         last evs = (c, Raised e) \<and>
         (\<forall>ev \<in> set (butlast evs). \<exists>v. snd ev = Returned v)"
proof -
  from assms have tb: "try_block E f text wd (w, []) = (out, (w', evs))"
    by (simp add: on_summarize_valid)
  from try_block_forms [OF tb] assms(3) show ?thesis
    by (elim disjE exE conjE) (auto simp: failed_def)
qed

theorem exception_caught_once_witness:
  "str_strip demo_text \<noteq> [] \<and>
   on_summarize offline_services (Some demo_summarizer) demo_text (demo_widgets demo_text) (0, []) =
     ([st_error [Lit ''An error occurred during summarization: '', Txt (ascii ''timed out'')],
       st_info [Lit ''Please try again with a different text or check your internet connection.'']],
      (5,
       [(Metrics demo_text, Returned (Got_metrics \<lparr>word_count = 4, sentence_count = 1, flesch_score = 60, smog_score = 8, language = ascii ''en''\<rparr>)),
        (Translate demo_text (ascii ''en''), Raised (LibraryError (ascii ''timed out'')))])) \<and>
   on_summarize demo_services (Some failing_summarizer) demo_text (demo_widgets demo_text) (0, []) =
     ([st_error [Lit ''An error occurred during summarization: '', Txt (ascii ''index out of range in self'')],
       st_info [Lit ''Please try again with a different text or check your internet connection.'']],
      (6,
       [(Metrics demo_text, Returned (Got_metrics \<lparr>word_count = 4, sentence_count = 1, flesch_score = 60, smog_score = 8, language = ascii ''en''\<rparr>)),
        (Translate demo_text (ascii ''en''), Returned (Got_text (ascii ''en:to be  or not''))),
        (Summarize (ascii ''en:to be  or not'') 60 30, Raised (LibraryError (ascii ''index out of range in self'')))]))"
proof -
  have m: "(Translate demo_text (ascii ''en''), Raised (LibraryError (ascii ''timed out''))) \<in>
           set [(Metrics demo_text, Returned (Got_metrics \<lparr>word_count = 4, sentence_count = 1, flesch_score = 60, smog_score = 8, language = ascii ''en''\<rparr>)),
                (Translate demo_text (ascii ''en''), Raised (LibraryError (ascii ''timed out'')))]"
    by simp
  have n: "(Summarize (ascii ''en:to be  or not'') 60 30, Raised (LibraryError (ascii ''index out of range in self''))) \<in>
           set [(Metrics demo_text, Returned (Got_metrics \<lparr>word_count = 4, sentence_count = 1, flesch_score = 60, smog_score = 8, language = ascii ''en''\<rparr>)),
                (Translate demo_text (ascii ''en''), Returned (Got_text (ascii ''en:to be  or not''))),
                (Summarize (ascii ''en:to be  or not'') 60 30, Raised (LibraryError (ascii ''index out of range in self'')))]"
    by simp
  from exception_caught_once [OF demo_text_not_blank offline_run m]
    exception_caught_once [OF demo_text_not_blank failing_summarizer_run n]
    demo_text_not_blank
  show ?thesis
    by (simp add: offline_run failing_summarizer_run failed_def)
qed

text \<open>
  C10. In a request that passes validation, if any call raises, the handler renders only
  the two messages of the \<^verbatim>\<open>except\<close> branch; and whatever happens it renders either only
  these two messages, or everything (both panels, the compression ratio, the summary, the
  copy area and the download link) after all five calls have returned. The ratio's
  division cannot raise there, so no run leaves the panels without the rest.
\<close>

theorem all_or_nothing:
  assumes "str_strip text \<noteq> []"
    and "on_summarize E (Some f) text wd (w, []) = (out, (w', evs))"
  shows "((\<exists>c e. (c, Raised e) \<in> set evs) \<longrightarrow> (\<exists>e. out = failed e)) \<and>
         ((\<exists>e. out = failed e) \<or>
          (\<exists>om english summary ts sm cr.
             map snd evs = [Returned (Got_metrics om), Returned (Got_text english),
                            Returned (Got_summary summary), Returned (Got_text ts),
                            Returned (Got_metrics sm)] \<and>
             compression_ratio (word_count sm) (word_count om) = Inr cr \<and>
             out = render om sm ts))"
proof -
  from assms have tb: "try_block E f text wd (w, []) = (out, (w', evs))"
    by (simp add: on_summarize_valid)
  from nonblank_has_word [OF assms(1)] have pos: "0 < length (str_split text)" .
  from try_block_forms [OF tb] pos show ?thesis
    by (elim disjE exE conjE) (auto simp: compression_ratio_def)
qed

theorem all_or_nothing_witness:
  "str_strip demo_text \<noteq> [] \<and>
   fst (on_summarize demo_services (Some demo_summarizer) demo_text (demo_widgets demo_text) (0, [])) =
     render \<lparr>word_count = 4, sentence_count = 1, flesch_score = 60, smog_score = 8, language = ascii ''en''\<rparr>
            \<lparr>word_count = 3, sentence_count = 1, flesch_score = 60, smog_score = 8, language = ascii ''en''\<rparr>
            (ascii ''es:en:to be  or'') \<and>
   compression_ratio 3 4 = Inr 25 \<and>
   fst (on_summarize offline_services (Some demo_summarizer) demo_text (demo_widgets demo_text) (0, [])) =
     failed (LibraryError (ascii ''timed out''))"
  using all_or_nothing [OF demo_text_not_blank demo_run] all_or_nothing [OF demo_text_not_blank offline_run]
    demo_text_not_blank
  by (simp add: demo_run offline_run compression_ratio_def)

section \<open>The compression ratio\<close>

lemma ratio_positive:
  assumes "s < n"
  shows "0 < (1 - of_nat s / of_nat n) * (100::rat)"
proof -
  from assms have "(of_nat s :: rat) < of_nat n" by simp
  moreover from assms have "(0::rat) < of_nat n" by simp
  ultimately have "(of_nat s :: rat) / of_nat n < 1" by (simp add: divide_less_eq_1_pos)
  then have "0 < 1 - (of_nat s :: rat) / of_nat n" by simp
  then show ?thesis by (intro mult_pos_pos) simp_all
qed

text \<open>
  C6. In a request that passes validation, where the original's word count is that of a
  text that is not blank, the compression ratio is computed without an exception, equals
  (1 - summary word count / original word count) * 100, and is what the page shows under
  "Compression Ratio" (with one decimal and a percent sign); it is strictly positive when
  the summary has fewer words than the original and 0 when both have as many. The
  quotient is taken exactly here, where Python takes it in double precision.
\<close>

theorem compression_ratio_shown:
  assumes "str_strip text \<noteq> []" and "word_count om = length (str_split text)"
  shows "\<exists>cr. compression_ratio (word_count sm) (word_count om) = Inr cr \<and>
              cr = (1 - of_nat (word_count sm) / of_nat (word_count om)) * 100 \<and>
              st_metric [Lit ''Compression Ratio''] [Fixed1 cr, Lit ''%''] \<in> set (render om sm ts) \<and>
              (word_count sm < word_count om \<longrightarrow> 0 < cr) \<and>
              (word_count sm = word_count om \<longrightarrow> cr = 0)"
proof -
  from nonblank_has_word [OF assms(1)] assms(2) have pos: "0 < word_count om"
    by simp
  then have "compression_ratio (word_count sm) (word_count om) =
      Inr ((1 - of_nat (word_count sm) / of_nat (word_count om)) * 100)"
    by (simp add: compression_ratio_def)
  moreover from this have "st_metric [Lit ''Compression Ratio'']
      [Fixed1 ((1 - of_nat (word_count sm) / of_nat (word_count om)) * 100), Lit ''%'']
      \<in> set (render om sm ts)"
    by (simp add: render_def)
  moreover have "word_count sm < word_count om \<longrightarrow>
      0 < (1 - of_nat (word_count sm) / of_nat (word_count om)) * (100::rat)"
    using ratio_positive by blast
  moreover have "word_count sm = word_count om \<longrightarrow>
      (1 - of_nat (word_count sm) / of_nat (word_count om)) * (100::rat) = 0"
    using pos by simp
  ultimately show ?thesis by blast
qed

theorem compression_ratio_shown_witness:
  "str_strip demo_text \<noteq> [] \<and> length (str_split demo_text) = 4 \<and>
   compression_ratio 3 4 = Inr 25 \<and> compression_ratio 4 4 = Inr 0 \<and>
   st_metric [Lit ''Compression Ratio''] [Fixed1 25, Lit ''%''] \<in>
     set (render \<lparr>word_count = 4, sentence_count = 1, flesch_score = 60, smog_score = 8, language = ascii ''en''\<rparr>
                 \<lparr>word_count = 3, sentence_count = 1, flesch_score = 60, smog_score = 8, language = ascii ''en''\<rparr>
                 (ascii ''es:en:to be  or''))"
proof -
  have l: "length (str_split demo_text) = 4"
    by (simp add: demo_text_def ascii_def isspace_def)
  have w: "word_count \<lparr>word_count = 4, sentence_count = 1, flesch_score = 60, smog_score = 8, language = ascii ''en''\<rparr> = length (str_split demo_text)"
    by (simp add: l)
  from compression_ratio_shown [OF demo_text_not_blank w,
      of "\<lparr>word_count = 3, sentence_count = 1, flesch_score = 60, smog_score = 8, language = ascii ''en''\<rparr>"
         "ascii ''es:en:to be  or''"]
    demo_text_not_blank l
  show ?thesis
    by (auto simp: compression_ratio_def)
qed

text \<open>
  C7, as the code has it. Every text that passes the blank check has a word: its
  white-space split has at least one token, so the division by the original's word count
  never has a zero divisor in a request that passes validation. Stripping and splitting
  use the same white space, and a text of punctuation only counts each run of punctuation
  as a word.
\<close>

theorem blank_check_guards_division:
  assumes "str_strip text \<noteq> []"
  shows "0 < length (str_split text) \<and>
         (\<exists>cr. compression_ratio n (length (str_split text)) = Inr cr)"
  using nonblank_has_word [OF assms]
  by (simp add: compression_ratio_def)

theorem blank_check_guards_division_witness:
  "str_strip (ascii '' . , ! '') \<noteq> [] \<and> 0 < length (str_split (ascii '' . , ! '')) \<and>
   (\<exists>cr. compression_ratio 0 (length (str_split (ascii '' . , ! ''))) = Inr cr)"
proof -
  have a: "str_strip (ascii '' . , ! '') \<noteq> []"
    by (simp add: str_strip_def ascii_def isspace_def)
  from blank_check_guards_division [OF a, of 0] a show ?thesis
    by simp
qed

text \<open>
  C7 as the specification words it fails: no text passes the blank check with a word count
  of 0. The text it proposes, punctuation between white space, has three words.
\<close>

theorem punctuation_only_counterexample:
  "str_strip (ascii '' . , ! '') = ascii ''. , !'' \<and>
   str_split (ascii '' . , ! '') = [ascii ''.'', ascii '','', ascii ''!''] \<and>
   length (str_split (ascii '' . , ! '')) = 3 \<and>
   \<not> (\<exists>text. str_strip text \<noteq> [] \<and> length (str_split text) = 0)"
proof -
  have "\<not> (\<exists>text. str_strip text \<noteq> [] \<and> length (str_split text) = 0)"
    using nonblank_has_word by fastforce
  then show ?thesis
    by (simp add: str_strip_def ascii_def isspace_def)
qed

section \<open>A model that failed to load\<close>

lemma cached_after_failure:
  "resource_cache st = Some None \<Longrightarrow> cached_load_summarizer H st = (None, st)"
  by (simp add: cached_load_summarizer_def)

lemma first_load_fails:
  assumes "resource_cache st = None" and "fst (fst (load_summarizer H (world st))) = None"
  shows "\<exists>st1. cached_load_summarizer H st = (None, st1) \<and> resource_cache st1 = Some None \<and>
           loads st1 = loads st + 1"
  using assms
  by (auto simp: cached_load_summarizer_def split: prod.splits)

lemma on_summarize_without_model:
  "on_summarize E None text wd s =
     (if str_strip text = [] then [st_warning [Lit ''Please enter or upload some text first.'']]
      else [st_error [Lit ''Model failed to load. Please check your internet connection and try again.'']], s)"
  by (simp add: on_summarize_def)

lemma run_without_model:
  assumes "cached_load_summarizer H st = (None, st1)"
  shows "snd (run_script H P E st wd) = st1"
    and "button wd \<Longrightarrow> read_input P wd = Inr text \<Longrightarrow> str_strip text \<noteq> [] \<Longrightarrow>
         fst (run_script H P E st wd) =
           Inr ([st_error [Lit ''Model failed to load. Please check your internet connection and try again.'']], [])"
  using assms
  by (auto simp: run_script_def on_summarize_without_model split: sum.splits)

lemma session_after_failure:
  assumes "resource_cache st = Some None" and "session H P E st wds = (rs, st')"
  shows "st' = st \<and> length rs = length wds \<and>
         (\<forall>i < length wds. button (wds ! i) \<longrightarrow> (\<forall>text. read_input P (wds ! i) = Inr text \<longrightarrow>
            str_strip text \<noteq> [] \<longrightarrow>
            rs ! i = Inr ([st_error [Lit ''Model failed to load. Please check your internet connection and try again.'']], [])))"
  using assms
proof (induction wds arbitrary: rs st')
  case Nil
  then show ?case by simp
next
  case (Cons wd wds)
  from Cons.prems(1) have c: "cached_load_summarizer H st = (None, st)"
    by (rule cached_after_failure)
  obtain r where r: "run_script H P E st wd = (r, st)"
    using run_without_model(1) [OF c, of P E wd] by (cases "run_script H P E st wd") simp
  obtain rs' st2 where s: "session H P E st wds = (rs', st2)"
    by (cases "session H P E st wds")
  from Cons.prems(2) r s have eq: "rs = r # rs'" "st' = st2"
    by simp_all
  from Cons.IH [OF Cons.prems(1) s] have ih: "st2 = st" "length rs' = length wds"
    "\<forall>i < length wds. button (wds ! i) \<longrightarrow> (\<forall>text. read_input P (wds ! i) = Inr text \<longrightarrow>
            str_strip text \<noteq> [] \<longrightarrow>
            rs' ! i = Inr ([st_error [Lit ''Model failed to load. Please check your internet connection and try again.'']], []))"
    by simp_all
  have head: "button wd \<longrightarrow> (\<forall>text. read_input P wd = Inr text \<longrightarrow> str_strip text \<noteq> [] \<longrightarrow>
      r = Inr ([st_error [Lit ''Model failed to load. Please check your internet connection and try again.'']], []))"
    using run_without_model(2) [OF c, of wd P _ E] r by auto
  show ?case
    using eq ih head by (auto simp: nth_Cons split: nat.splits)
qed

text \<open>
  C8. In a process that starts with nothing cached, if loading the summarization model
  fails, then over any sequence of runs of the script the body of \<^verbatim>\<open>load_summarizer\<close> has
  run once, its \<^verbatim>\<open>None\<close> stays cached, and every run in which the button was pressed on a
  text that is not blank renders the one fixed message that the model failed to load, and
  calls neither the metrics calculator nor the translator nor the summarizer.
\<close>

theorem load_failure_is_fatal:
  assumes "resource_cache st0 = None" and "loads st0 = 0"
    and "fst (fst (load_summarizer H (world st0))) = None"
    and "session H P E st0 wds = (rs, st')"
    and "i < length wds" and "button (wds ! i)"
    and "read_input P (wds ! i) = Inr text" and "str_strip text \<noteq> []"
  shows "rs ! i = Inr ([st_error [Lit ''Model failed to load. Please check your internet connection and try again.'']], [])
         \<and> loads st' = 1 \<and> resource_cache st' = Some None"
proof -
  from assms(5) obtain wd wds' where wds: "wds = wd # wds'"
    by (cases wds) auto
  from first_load_fails [OF assms(1,3)] obtain st1 where
    c: "cached_load_summarizer H st0 = (None, st1)" and
    st1: "resource_cache st1 = Some None" "loads st1 = loads st0 + 1"
    by blast
  obtain r where r: "run_script H P E st0 wd = (r, st1)"
    using run_without_model(1) [OF c, of P E wd] by (cases "run_script H P E st0 wd") simp
  obtain rs' st2 where s: "session H P E st1 wds' = (rs', st2)"
    by (cases "session H P E st1 wds'")
  from assms(4) wds r s have eq: "rs = r # rs'" "st' = st2"
    by simp_all
  from session_after_failure [OF st1(1) s] have tl: "st2 = st1"
    "\<forall>i < length wds'. button (wds' ! i) \<longrightarrow> (\<forall>text. read_input P (wds' ! i) = Inr text \<longrightarrow>
            str_strip text \<noteq> [] \<longrightarrow>
            rs' ! i = Inr ([st_error [Lit ''Model failed to load. Please check your internet connection and try again.'']], []))"
    by simp_all
  have head: "button wd \<longrightarrow> (\<forall>text. read_input P wd = Inr text \<longrightarrow> str_strip text \<noteq> [] \<longrightarrow>
      r = Inr ([st_error [Lit ''Model failed to load. Please check your internet connection and try again.'']], []))"
    using run_without_model(2) [OF c, of wd P _ E] r by auto
  have "rs ! i = Inr ([st_error [Lit ''Model failed to load. Please check your internet connection and try again.'']], [])"
  proof (cases i)
    case 0
    with assms(6,7,8) wds eq head show ?thesis by simp
  next
    case (Suc j)
    with assms(5,6,7,8) wds eq tl(2) show ?thesis by simp
  qed
  with eq tl(1) st1 assms(2) show ?thesis by simp
qed

lemma offline_load: "load_summarizer offline_hub 0 = ((None, load_failed (LibraryError (ascii ''no route''))), 1)"
  by (simp add: load_summarizer_def offline_hub_def)

lemma two_spaces_blank: "str_strip (ascii ''  '') = []"
  by (simp add: str_strip_def ascii_def isspace_def)

lemma offline_session:
  "session offline_hub demo_parsers demo_services fresh_process
     [demo_widgets demo_text, demo_widgets (ascii ''  ''), demo_widgets demo_text] =
     ([Inr ([st_error [Lit ''Model failed to load. Please check your internet connection and try again.'']], []),
       Inr ([st_warning [Lit ''Please enter or upload some text first.'']], []),
       Inr ([st_error [Lit ''Model failed to load. Please check your internet connection and try again.'']], [])],
      \<lparr>world = 1, resource_cache = Some None, loads = 1\<rparr>)"
  by (simp add: run_script_def cached_load_summarizer_def offline_load fresh_process_def
      read_input_def demo_widgets_def on_summarize_without_model demo_text_not_blank
      two_spaces_blank)

theorem load_failure_is_fatal_witness:
  "resource_cache fresh_process = None \<and> loads fresh_process = 0 \<and>
   fst (fst (load_summarizer offline_hub (world fresh_process))) = None \<and>
   session offline_hub demo_parsers demo_services fresh_process
     [demo_widgets demo_text, demo_widgets (ascii ''  ''), demo_widgets demo_text] =
     ([Inr ([st_error [Lit ''Model failed to load. Please check your internet connection and try again.'']], []),
       Inr ([st_warning [Lit ''Please enter or upload some text first.'']], []),
       Inr ([st_error [Lit ''Model failed to load. Please check your internet connection and try again.'']], [])],
      \<lparr>world = 1, resource_cache = Some None, loads = 1\<rparr>) \<and>
   button (demo_widgets demo_text) \<and>
   read_input demo_parsers (demo_widgets demo_text) = Inr demo_text \<and>
   str_strip demo_text \<noteq> [] \<and>
   loads \<lparr>world = 1::nat, resource_cache = Some None, loads = 1\<rparr> = 1"
proof -
  have a: "resource_cache fresh_process = None" "loads fresh_process = 0"
    by (simp_all add: fresh_process_def)
  have b: "fst (fst (load_summarizer offline_hub (world fresh_process))) = None"
    by (simp add: fresh_process_def offline_load)
  have i: "2 < length [demo_widgets demo_text, demo_widgets (ascii ''  ''), demo_widgets demo_text]"
    by simp
  have c: "button (demo_widgets demo_text)"
    by (simp add: demo_widgets_def)
  have d: "read_input demo_parsers (demo_widgets demo_text) = Inr demo_text"
    by (simp add: read_input_def demo_widgets_def)
  have c2: "button ([demo_widgets demo_text, demo_widgets (ascii ''  ''), demo_widgets demo_text] ! 2)"
    using c by simp
  have d2: "read_input demo_parsers
      ([demo_widgets demo_text, demo_widgets (ascii ''  ''), demo_widgets demo_text] ! 2) = Inr demo_text"
    using d by simp
  from load_failure_is_fatal [OF a b offline_session i c2 d2 demo_text_not_blank]
  have "loads \<lparr>world = 1::nat, resource_cache = Some None, loads = 1\<rparr> = 1"
    by blast
  with a b offline_session c d demo_text_not_blank show ?thesis
    by blast
qed

end
